theory Spec2Isabelle
  imports Complex_Main
begin

section \<open>Numbers\<close>

text \<open>
  The source computes with JavaScript numbers. The embedding takes them as exact reals:
  \<open>totalSize\<close>, \<open>min\<close>, \<open>priority\<close> and \<open>share\<close> are finite reals, and \<open>max\<close> is a
  finite real or \<open>Infinity\<close> (its default). Rounding, \<open>NaN\<close> and infinite values of
  the other fields are outside the model.
\<close>

datatype bound = Finite real | Infinity

text \<open>\<open>sum + p.max\<close> (line 85).\<close>

fun bound_add :: "bound \<Rightarrow> bound \<Rightarrow> bound" where
  "bound_add (Finite a) (Finite b) = Finite (a + b)"
| "bound_add _ _ = Infinity"

text \<open>\<open>totalMax < totalSize\<close> (line 86).\<close>

fun bound_less_real :: "bound \<Rightarrow> real \<Rightarrow> bool" where
  "bound_less_real (Finite a) t = (a < t)"
| "bound_less_real Infinity t = False"

text \<open>\<open>part.allocatedSize < part.max\<close> (line 125).\<close>

fun real_less_bound :: "real \<Rightarrow> bound \<Rightarrow> bool" where
  "real_less_bound a (Finite m) = (a < m)"
| "real_less_bound a Infinity = True"

text \<open>\<open>part.allocatedSize >= part.max\<close> (line 135).\<close>

fun real_ge_bound :: "real \<Rightarrow> bound \<Rightarrow> bool" where
  "real_ge_bound a (Finite m) = (a \<ge> m)"
| "real_ge_bound a Infinity = False"

text \<open>\<open>part.max - part.allocatedSize\<close> (line 141).\<close>

fun bound_minus :: "bound \<Rightarrow> real \<Rightarrow> bound" where
  "bound_minus (Finite m) a = Finite (m - a)"
| "bound_minus Infinity a = Infinity"

text \<open>\<open>Math.min(desiredIncrease, maxIncrease)\<close> (line 142).\<close>

fun math_min :: "real \<Rightarrow> bound \<Rightarrow> real" where
  "math_min d (Finite m) = min d m"
| "math_min d Infinity = d"

section \<open>Data model\<close>

text \<open>
  \<open>IFlexBoxPart\<close> (lines 13 to 19): every field is optional. \<open>min\<close> and \<open>max\<close> are
  constants of HOL, so the fields \<open>min\<close>, \<open>max\<close>, \<open>priority\<close> and \<open>share\<close> of a part are
  \<open>part_min\<close>, \<open>part_max\<close>, \<open>part_priority\<close> and \<open>part_share\<close> here.
\<close>

record IFlexBoxPart =
  width :: "real option"
  part_min :: "real option"
  part_max :: "bound option"
  part_priority :: "real option"
  part_share :: "real option"

text \<open>A value of the parts object is one part or an array of parts.\<close>

datatype part_group = Single IFlexBoxPart | Many "IFlexBoxPart list"

text \<open>
  The parts object, as the list of its entries in the order \<open>for (const key in parts)\<close>
  visits them. The keys of an object are distinct.
\<close>

type_synonym flex_parts = "(string \<times> part_group) list"

text \<open>
  \<open>FlatPart\<close> (lines 41 to 49), with \<open>min_size\<close> and \<open>max_size\<close> for its fields \<open>min\<close>
  and \<open>max\<close>.
\<close>

record FlatPart =
  key :: string
  index :: "nat option"
  min_size :: real
  max_size :: bound
  priority :: real
  share :: real
  allocatedSize :: real

text \<open>The only throw of the function: reading \<open>allocatedSize\<close> of \<open>undefined\<close> (line 169).\<close>

datatype error = TypeError

text \<open>The part \<open>{}\<close>.\<close>

definition emptyPart :: IFlexBoxPart where
  "emptyPart = \<lparr> width = None, part_min = None, part_max = None,
                 part_priority = None, part_share = None \<rparr>"

section \<open>Flattening (lines 51 to 76)\<close>

text \<open>The object pushed for one part, with the defaults of \<open>??\<close>.\<close>

definition flatPart :: "string \<Rightarrow> nat option \<Rightarrow> IFlexBoxPart \<Rightarrow> FlatPart" where
  "flatPart k i part =
     \<lparr> key = k, index = i,
       min_size = (case part_min part of None \<Rightarrow> 0 | Some v \<Rightarrow> v),
       max_size = (case part_max part of None \<Rightarrow> Infinity | Some v \<Rightarrow> v),
       priority = (case part_priority part of None \<Rightarrow> 0 | Some v \<Rightarrow> v),
       share = (case part_share part of None \<Rightarrow> 1 | Some v \<Rightarrow> v),
       allocatedSize = 0 \<rparr>"

text \<open>The loop of lines 55 to 65 from index \<open>i\<close> on, and the loop of lines 52 to 76.\<close>

fun flattenArray :: "string \<Rightarrow> nat \<Rightarrow> IFlexBoxPart list \<Rightarrow> FlatPart list" where
  "flattenArray k i [] = []"
| "flattenArray k i (part # rest) = flatPart k (Some i) part # flattenArray k (Suc i) rest"

fun flatten :: "flex_parts \<Rightarrow> FlatPart list" where
  "flatten [] = []"
| "flatten ((k, Many ps) # rest) = flattenArray k 0 ps @ flatten rest"
| "flatten ((k, Single part) # rest) = flatPart k None part # flatten rest"

section \<open>Feasibility and minimum allocation (lines 78 to 98)\<close>

text \<open>The two calls of \<open>reduce\<close> (lines 79 and 85) and the loop of lines 91 to 93.\<close>

definition totalMin :: "FlatPart list \<Rightarrow> real" where
  "totalMin flatParts = foldl (\<lambda>sum p. sum + min_size p) 0 flatParts"

definition totalMax :: "FlatPart list \<Rightarrow> bound" where
  "totalMax flatParts = foldl (\<lambda>sum p. bound_add sum (max_size p)) (Finite 0) flatParts"

definition allocateMinimum :: "FlatPart list \<Rightarrow> FlatPart list" where
  "allocateMinimum flatParts = map (\<lambda>part. part\<lparr>allocatedSize := min_size part\<rparr>) flatParts"

text \<open>
  The distinct priorities (\<open>new Set\<close>), sorted by \<open>(a, b) => b - a\<close>, that is highest first
  (line 98).
\<close>

definition priorities :: "FlatPart list \<Rightarrow> real list" where
  "priorities flatParts = rev (sort (remdups (map priority flatParts)))"

section \<open>Distribution within one priority (lines 106 to 153)\<close>

text \<open>
  \<open>partsAtPriority\<close> holds the objects of \<open>flatParts\<close> themselves, so the loop updates
  \<open>flatParts\<close>. The model keeps the one list \<open>flatParts\<close> and selects by priority.
\<close>

definition partsAtPriority :: "real \<Rightarrow> FlatPart list \<Rightarrow> FlatPart list" where
  "partsAtPriority prio flatParts = filter (\<lambda>p. priority p = prio) flatParts"

definition totalShare :: "real \<Rightarrow> FlatPart list \<Rightarrow> real" where
  "totalShare prio flatParts = foldl (\<lambda>sum p. sum + share p) 0 (partsAtPriority prio flatParts)"

text \<open>Lines 123 to 128.\<close>

definition activeShare :: "real \<Rightarrow> FlatPart list \<Rightarrow> real" where
  "activeShare prio flatParts =
     foldl (\<lambda>a part. if real_less_bound (allocatedSize part) (max_size part) then a + share part else a)
       0 (partsAtPriority prio flatParts)"

text \<open>Lines 139 to 142, for one part that is not skipped.\<close>

definition actualIncrease :: "real \<Rightarrow> real \<Rightarrow> FlatPart \<Rightarrow> real" where
  "actualIncrease spaceToDistribute act part =
     (let shareRatio = share part / act;
          desiredIncrease = spaceToDistribute * shareRatio;
          maxIncrease = bound_minus (max_size part) (allocatedSize part)
      in math_min desiredIncrease maxIncrease)"

text \<open>
  The loop of lines 134 to 146: the parts of the list after the round, and
  \<open>distributedThisRound\<close>. A part of another priority is not in \<open>partsAtPriority\<close>. Every
  part is computed from \<open>spaceToDistribute\<close> and \<open>activeShare\<close> as they are when the round
  starts (line 148 comes after the loop). The source adds the increases from the left and
  this function from the right, which is the same sum in exact arithmetic.
\<close>

fun distributeRound :: "real \<Rightarrow> real \<Rightarrow> real \<Rightarrow> FlatPart list \<Rightarrow> FlatPart list \<times> real" where
  "distributeRound prio spaceToDistribute act [] = ([], 0)"
| "distributeRound prio spaceToDistribute act (part # rest) =
     (let (rest', distributed) = distributeRound prio spaceToDistribute act rest in
      if priority part \<noteq> prio then (part # rest', distributed)
      else if real_ge_bound (allocatedSize part) (max_size part) then (part # rest', distributed)
      else
        (part\<lparr>allocatedSize := allocatedSize part + actualIncrease spaceToDistribute act part\<rparr> # rest',
         actualIncrease spaceToDistribute act part + distributed))"

text \<open>The literal \<open>0.001\<close> of lines 118 and 150.\<close>

definition epsilon :: real where
  "epsilon = 0.001"

text \<open>How the loop of lines 118 to 153 is left: by its condition, or by one of its breaks.\<close>

datatype loop_exit = ConditionFalse | NoActiveShare | NegligibleRound

text \<open>
  The variables of the loop of lines 118 to 153, and the loop: \<open>iterationCount++\<close> (line
  119), the break on \<open>activeShare === 0\<close> (line 130), one round (lines 134 to 148), the break
  on \<open>distributedThisRound < 0.001\<close> (line 150).
\<close>

record TierState =
  flatParts :: "FlatPart list"
  spaceToDistribute :: real
  iterationCount :: nat

function tierLoop :: "real \<Rightarrow> nat \<Rightarrow> TierState \<Rightarrow> TierState \<times> loop_exit" where
  "tierLoop prio maxIterations s =
     (if spaceToDistribute s > epsilon \<and> iterationCount s < maxIterations then
        (let s1 = s\<lparr>iterationCount := iterationCount s + 1\<rparr>;
             act = activeShare prio (flatParts s1)
         in if act = 0 then (s1, NoActiveShare)
            else
              (let (parts', distributedThisRound) =
                     distributeRound prio (spaceToDistribute s1) act (flatParts s1);
                   s2 = s1\<lparr>flatParts := parts',
                           spaceToDistribute := spaceToDistribute s1 - distributedThisRound\<rparr>
               in if distributedThisRound < epsilon then (s2, NegligibleRound)
                  else tierLoop prio maxIterations s2))
      else (s, ConditionFalse))"
  by pat_completeness auto
termination
  by (relation "measure (\<lambda>(prio, maxIterations, s). maxIterations - iterationCount s)") auto

declare tierLoop.simps [simp del]

text \<open>
  Lines 114 to 153 for one priority, with \<open>maxIterations = partsAtPriority.length * 2\<close>: the
  parts and \<open>spaceToDistribute\<close> afterwards.
\<close>

definition distributeTier :: "real \<Rightarrow> FlatPart list \<Rightarrow> real \<Rightarrow> TierState \<times> loop_exit" where
  "distributeTier prio fps remainingSize =
     tierLoop prio (length (partsAtPriority prio fps) * 2)
       \<lparr>flatParts = fps, spaceToDistribute = remainingSize, iterationCount = 0\<rparr>"

section \<open>The loop over the priorities (lines 101 to 156)\<close>

text \<open>
  The break on \<open>remainingSize <= 0\<close> (line 102), the \<open>continue\<close> on \<open>totalShare === 0\<close> (line
  109), and \<open>remainingSize = spaceToDistribute\<close> (line 155).
\<close>

fun distributeByPriority :: "real list \<Rightarrow> FlatPart list \<Rightarrow> real \<Rightarrow> FlatPart list \<times> real" where
  "distributeByPriority [] fps remainingSize = (fps, remainingSize)"
| "distributeByPriority (prio # rest) fps remainingSize =
     (if remainingSize \<le> 0 then (fps, remainingSize)
      else if totalShare prio fps = 0 then distributeByPriority rest fps remainingSize
      else
        (let s = fst (distributeTier prio fps remainingSize)
         in distributeByPriority rest (flatParts s) (spaceToDistribute s)))"

text \<open>The exits taken by the successive runs of the inner loop, in order.\<close>

fun tierExits :: "real list \<Rightarrow> FlatPart list \<Rightarrow> real \<Rightarrow> loop_exit list" where
  "tierExits [] fps remainingSize = []"
| "tierExits (prio # rest) fps remainingSize =
     (if remainingSize \<le> 0 then []
      else if totalShare prio fps = 0 then tierExits rest fps remainingSize
      else
        (let (s, ex) = distributeTier prio fps remainingSize
         in ex # tierExits rest (flatParts s) (spaceToDistribute s)))"


section \<open>The result (lines 158 to 173)\<close>

text \<open>
  The result object as the list of its entries, in the order in which the loop of line 160
  assigns them. An array part gets the sum of the sizes of the flat parts with its key; a
  single part gets the size of the first flat part with its key and no index, and the
  non-null assertion of line 169 throws when \<open>find\<close> returns \<open>undefined\<close>.
\<close>

fun buildResult :: "flex_parts \<Rightarrow> FlatPart list \<Rightarrow> error + (string \<times> real) list" where
  "buildResult [] fps = Inr []"
| "buildResult ((k, Many ps) # rest) fps =
     (let sizes = map allocatedSize (filter (\<lambda>p. key p = k) fps);
          v = foldl (\<lambda>sum size. sum + size) 0 sizes
      in case buildResult rest fps of Inl e \<Rightarrow> Inl e | Inr r \<Rightarrow> Inr ((k, v) # r))"
| "buildResult ((k, Single part) # rest) fps =
     (case find (\<lambda>p. key p = k \<and> index p = None) fps of
        None \<Rightarrow> Inl TypeError
      | Some fp \<Rightarrow>
          (case buildResult rest fps of
             Inl e \<Rightarrow> Inl e
           | Inr r \<Rightarrow> Inr ((k, allocatedSize fp) # r)))"

section \<open>distributeFlexBoxLayout (lines 36 to 174)\<close>

text \<open>
  Lines 51 to 156: \<open>None\<close> where the source returns \<open>null\<close>, otherwise \<open>flatParts\<close> and
  \<open>remainingSize\<close> as they are at line 158.
\<close>

definition allocate :: "real \<Rightarrow> flex_parts \<Rightarrow> (FlatPart list \<times> real) option" where
  "allocate totalSize parts =
     (let fps = flatten parts in
      if totalMin fps > totalSize then None
      else if bound_less_real (totalMax fps) totalSize then None
      else
        (let fps' = allocateMinimum fps;
             remainingSize = totalSize - totalMin fps
         in Some (distributeByPriority (priorities fps') fps' remainingSize)))"

text \<open>\<open>Inr None\<close> is the result \<open>null\<close>; \<open>Inl TypeError\<close> is a throw at line 169.\<close>

definition distributeFlexBoxLayout ::
  "real \<Rightarrow> flex_parts \<Rightarrow> error + (string \<times> real) list option" where
  "distributeFlexBoxLayout totalSize parts =
     (case allocate totalSize parts of
        None \<Rightarrow> Inr None
      | Some (fps, remainingSize) \<Rightarrow>
          (case buildResult parts fps of
             Inl e \<Rightarrow> Inl e
           | Inr result \<Rightarrow> Inr (Some result)))"

text \<open>The exits that the runs of the inner loop take in a call, tier after tier.\<close>

definition loopExits :: "real \<Rightarrow> flex_parts \<Rightarrow> loop_exit list" where
  "loopExits totalSize parts =
     (let fps = allocateMinimum (flatten parts)
      in tierExits (priorities fps) fps (totalSize - totalMin (flatten parts)))"

section \<open>The rounds of a tier, part by part\<close>

text \<open>A part takes part in a round when it has the priority and is below its maximum.\<close>

definition isActive :: "real \<Rightarrow> FlatPart \<Rightarrow> bool" where
  "isActive prio part = (priority part = prio \<and> real_less_bound (allocatedSize part) (max_size part))"

definition increaseOf :: "real \<Rightarrow> real \<Rightarrow> real \<Rightarrow> FlatPart \<Rightarrow> real" where
  "increaseOf prio space act part =
     (if isActive prio part then actualIncrease space act part else 0)"

definition growPart :: "real \<Rightarrow> real \<Rightarrow> real \<Rightarrow> FlatPart \<Rightarrow> FlatPart" where
  "growPart prio space act part =
     part\<lparr>allocatedSize := allocatedSize part + increaseOf prio space act part\<rparr>"


text \<open>The number of parts of a priority that are below their maximum.\<close>

definition activeCount :: "real \<Rightarrow> FlatPart list \<Rightarrow> nat" where
  "activeCount prio fps = length (filter (isActive prio) fps)"

text \<open>One full pass through the body of the loop of lines 118 to 153.\<close>

definition roundStep :: "real \<Rightarrow> TierState \<Rightarrow> TierState" where
  "roundStep prio s =
     (let r = distributeRound prio (spaceToDistribute s) (activeShare prio (flatParts s)) (flatParts s)
      in s\<lparr>iterationCount := iterationCount s + 1, flatParts := fst r,
           spaceToDistribute := spaceToDistribute s - snd r\<rparr>)"

definition roundDistributed :: "real \<Rightarrow> TierState \<Rightarrow> real" where
  "roundDistributed prio s =
     snd (distributeRound prio (spaceToDistribute s) (activeShare prio (flatParts s)) (flatParts s))"

section \<open>Notions used to state the properties\<close>



text \<open>Two flat parts that differ at most in \<open>allocatedSize\<close>.\<close>

definition sameSpec :: "FlatPart \<Rightarrow> FlatPart \<Rightarrow> bool" where
  "sameSpec p q = (key p = key q \<and> index p = index q \<and> min_size p = min_size q \<and>
                   max_size p = max_size q \<and> priority p = priority q \<and> share p = share q)"



text \<open>A part with its \<open>width\<close> removed, and a parts object with every \<open>width\<close> removed.\<close>

definition clearWidth :: "IFlexBoxPart \<Rightarrow> IFlexBoxPart" where
  "clearWidth part = part\<lparr>width := None\<rparr>"

fun clearWidths :: "flex_parts \<Rightarrow> flex_parts" where
  "clearWidths [] = []"
| "clearWidths ((k, Single part) # rest) = (k, Single (clearWidth part)) # clearWidths rest"
| "clearWidths ((k, Many ps) # rest) = (k, Many (map clearWidth ps)) # clearWidths rest"


section \<open>Inputs\<close>

text \<open>
  The call of lines 7 to 11, and scenarios (b), (c) and (d) of the specification.
\<close>

definition scenarioA :: flex_parts where
  "scenarioA =
     [(''spaceBefore'', Single \<lparr> width = None, part_min = Some 10, part_max = Some (Finite 100),
                                  part_priority = Some 2, part_share = Some 1 \<rparr>),
      (''content'', Many [\<lparr> width = None, part_min = Some 50, part_max = Some (Finite 100),
                            part_priority = Some 2, part_share = Some 2 \<rparr>,
                          \<lparr> width = None, part_min = Some 100, part_max = Some (Finite 500),
                            part_priority = Some 1, part_share = None \<rparr>]),
      (''spaceAfter'', Single emptyPart)]"



definition scenarioD :: flex_parts where
  "scenarioD = [(''a'', Single emptyPart), (''b'', Single emptyPart)]"



definition widthExample :: flex_parts where
  "widthExample = [(''a'', Single (emptyPart\<lparr>width := Some 7\<rparr>)),
                   (''b'', Single (emptyPart\<lparr>width := Some 1\<rparr>))]"





definition negligibleRoundExample :: flex_parts where
  "negligibleRoundExample =
     [(''a'', Single (emptyPart\<lparr>part_max := Some (Finite 0.0005), part_share := Some 1000000\<rparr>)),
      (''b'', Single emptyPart)]"

definition negligibleRoundPriorityExample :: flex_parts where
  "negligibleRoundPriorityExample =
     [(''a'', Single (emptyPart\<lparr>part_max := Some (Finite 0.0005), part_priority := Some 1,
                                 part_share := Some 1000000\<rparr>)),
      (''b'', Single (emptyPart\<lparr>part_max := Some (Finite 1000), part_priority := Some 1\<rparr>)),
      (''c'', Single emptyPart)]"



section \<open>Basic facts\<close>

subsection \<open>Numbers, sums and priorities\<close>

lemma real_ge_bound_iff: "real_ge_bound a m = (\<not> real_less_bound a m)"
  by (cases m) auto

















lemma filter_map_shrinks:
  assumes "\<And>x. x \<in> set xs \<Longrightarrow> Q (g x) \<Longrightarrow> Q x"
  shows "length (filter Q (map g xs)) \<le> length (filter Q xs)"
  using assms by (induction xs) auto



subsection \<open>One part in a round\<close>

lemma distributeRound_fst:
  "fst (distributeRound prio sp act ps) = map (growPart prio sp act) ps"
  by (induction ps)
     (auto simp: growPart_def increaseOf_def isActive_def real_ge_bound_iff Let_def split: prod.splits)


lemma growPart_fields [simp]:
  "key (growPart prio sp act p) = key p"
  "index (growPart prio sp act p) = index p"
  "min_size (growPart prio sp act p) = min_size p"
  "max_size (growPart prio sp act p) = max_size p"
  "priority (growPart prio sp act p) = priority p"
  "share (growPart prio sp act p) = share p"
  "allocatedSize (growPart prio sp act p) = allocatedSize p + increaseOf prio sp act p"
  by (simp_all add: growPart_def)


lemma growPart_inactive: "\<not> isActive prio p \<Longrightarrow> growPart prio sp act p = p"
  by (simp add: growPart_def increaseOf_def)


lemma sameSpec_refl [simp]: "sameSpec p p"
  by (simp add: sameSpec_def)

lemma sameSpec_growPart [simp]: "sameSpec p (growPart prio sp act q) = sameSpec p q"
  by (simp add: sameSpec_def)








lemma isActive_growPart_imp:
  "isActive prio (growPart prio sp act p) \<Longrightarrow> isActive prio p"
  by (cases "isActive prio p") (simp_all add: growPart_inactive)


subsection \<open>One round\<close>

lemma roundStep_iterationCount [simp]:
  "iterationCount (roundStep prio s) = iterationCount s + 1"
  by (simp add: roundStep_def Let_def)

lemma roundStep_flatParts:
  "flatParts (roundStep prio s) =
     map (growPart prio (spaceToDistribute s) (activeShare prio (flatParts s))) (flatParts s)"
  by (simp add: roundStep_def Let_def distributeRound_fst)







lemma activeCount_roundStep_le:
  "activeCount prio (flatParts (roundStep prio s)) \<le> activeCount prio (flatParts s)"
  unfolding activeCount_def roundStep_flatParts
  by (rule filter_map_shrinks) (rule isActive_growPart_imp)






subsection \<open>The loop of one tier\<close>

lemma tierLoop_stop:
  "\<not> (spaceToDistribute s > epsilon \<and> iterationCount s < m) \<Longrightarrow>
   tierLoop prio m s = (s, ConditionFalse)"
  by (subst tierLoop.simps) auto

lemma tierLoop_noActiveShare:
  "spaceToDistribute s > epsilon \<Longrightarrow> iterationCount s < m \<Longrightarrow>
   activeShare prio (flatParts s) = 0 \<Longrightarrow>
   tierLoop prio m s = (s\<lparr>iterationCount := iterationCount s + 1\<rparr>, NoActiveShare)"
  by (subst tierLoop.simps) (simp add: Let_def)

lemma tierLoop_negligible:
  "spaceToDistribute s > epsilon \<Longrightarrow> iterationCount s < m \<Longrightarrow>
   activeShare prio (flatParts s) \<noteq> 0 \<Longrightarrow> roundDistributed prio s < epsilon \<Longrightarrow>
   tierLoop prio m s = (roundStep prio s, NegligibleRound)"
  by (subst tierLoop.simps)
     (auto simp: Let_def roundStep_def roundDistributed_def split: prod.splits)

lemma tierLoop_continue:
  "spaceToDistribute s > epsilon \<Longrightarrow> iterationCount s < m \<Longrightarrow>
   activeShare prio (flatParts s) \<noteq> 0 \<Longrightarrow> \<not> roundDistributed prio s < epsilon \<Longrightarrow>
   tierLoop prio m s = tierLoop prio m (roundStep prio s)"
  by (subst tierLoop.simps)
     (auto simp: Let_def roundStep_def roundDistributed_def split: prod.splits)


text \<open>What the exit says about the final state.\<close>

lemma tierLoop_exit:
  assumes "tierLoop prio m s = (s', ex)"
  shows "(ex = ConditionFalse \<longrightarrow> \<not> (spaceToDistribute s' > epsilon \<and> iterationCount s' < m))
       \<and> (ex = NoActiveShare \<longrightarrow> activeShare prio (flatParts s') = 0)"
  using assms
proof (induction "m - iterationCount s" arbitrary: s rule: less_induct)
  case less
  show ?case
  proof (cases "spaceToDistribute s > epsilon \<and> iterationCount s < m")
    case False
    then show ?thesis using less.prems by (auto simp: tierLoop_stop)
  next
    case guard: True
    show ?thesis
    proof (cases "activeShare prio (flatParts s) = 0")
      case True
      then show ?thesis using guard less.prems by (auto simp: tierLoop_noActiveShare)
    next
      case act: False
      show ?thesis
      proof (cases "roundDistributed prio s < epsilon")
        case True
        then show ?thesis using guard act less.prems by (auto simp: tierLoop_negligible)
      next
        case False
        have "tierLoop prio m (roundStep prio s) = (s', ex)"
          using guard act False less.prems by (simp add: tierLoop_continue)
        then show ?thesis using guard by (intro less.hyps) auto
      qed
    qed
  qed
qed










subsection \<open>The loop over the priorities\<close>










subsection \<open>The whole allocation\<close>












subsection \<open>The result object\<close>





subsection \<open>The field width\<close>

lemma flatPart_clearWidth [simp]: "flatPart k i (clearWidth part) = flatPart k i part"
  by (simp add: flatPart_def clearWidth_def)

lemma flattenArray_clearWidth [simp]:
  "flattenArray k i (map clearWidth ps) = flattenArray k i ps"
  by (induction ps arbitrary: i) simp_all

lemma flatten_clearWidths: "flatten (clearWidths parts) = flatten parts"
  by (induction parts rule: clearWidths.induct) simp_all

lemma buildResult_clearWidths: "buildResult (clearWidths parts) fps = buildResult parts fps"
  by (induction parts rule: clearWidths.induct) (simp_all add: Let_def split: option.splits)

lemma distribute_clearWidths:
  "distributeFlexBoxLayout totalSize (clearWidths parts) = distributeFlexBoxLayout totalSize parts"
  by (simp add: distributeFlexBoxLayout_def allocate_def flatten_clearWidths buildResult_clearWidths
        split: option.splits)

subsection \<open>Evaluations\<close>






text \<open>
  The break of line 151 at work: the first round gives \<open>a\<close> its maximum 0.0005 and \<open>b\<close>
  its share 100/1000001 of the budget; the sum is below 0.001, the loop is left, and the rest
  of the budget of 100 is never distributed although \<open>b\<close> is unbounded.
\<close>

lemma negligibleRoundExample_result:
  "distributeFlexBoxLayout 100 negligibleRoundExample
     = Inr (Some [(''a'', 1 / 2000), (''b'', 100 / 1000001)])
   \<and> loopExits 100 negligibleRoundExample = [NegligibleRound]"
  by code_simp

text \<open>
  The same break between two tiers: \<open>b\<close> of priority 1 is left at 100/1000001, far below
  its maximum 1000, and \<open>c\<close> of priority 0 receives the rest.
\<close>

lemma negligibleRoundPriorityExample_result:
  "distributeFlexBoxLayout 100 negligibleRoundPriorityExample
     = Inr (Some [(''a'', 1 / 2000), (''b'', 100 / 1000001), (''c'', 100 - 1 / 2000 - 100 / 1000001)])
   \<and> loopExits 100 negligibleRoundPriorityExample = [NegligibleRound, ConditionFalse]"
  by code_simp





section \<open>The properties\<close>

subsection \<open>The total is distributed\<close>




subsection \<open>Infeasible inputs\<close>



subsection \<open>Bounds\<close>




subsection \<open>The order of the priorities\<close>




subsection \<open>The tolerance\<close>




subsection \<open>Equal parts\<close>




subsection \<open>A share of 0\<close>



subsection \<open>The scenarios\<close>

text \<open>
  C8. The call of lines 7 to 11 returns \<open>spaceBefore = 100\<close>, \<open>content = 600\<close>,
  \<open>spaceAfter = 300\<close>, which sum to 1000; with all defaults, a total of 100 over \<open>a\<close> and
  \<open>b\<close> gives 50 each.
\<close>

theorem scenario_results:
  "distributeFlexBoxLayout 1000 scenarioA =
     Inr (Some [(''spaceBefore'', 100), (''content'', 600), (''spaceAfter'', 300)])
   \<and> sum_list (map snd [(''spaceBefore'', 100::real), (''content'', 600), (''spaceAfter'', 300)]) = 1000
   \<and> distributeFlexBoxLayout 100 scenarioD = Inr (Some [(''a'', 50), (''b'', 50)])"
  by code_simp

subsection \<open>Termination\<close>


subsection \<open>The field width is not read\<close>

text \<open>
  C10. Two inputs that differ only in the \<open>width\<close> fields of their parts have the same
  result, \<open>null\<close> included.
\<close>

theorem width_is_ignored:
  assumes "clearWidths parts = clearWidths parts'"
  shows "distributeFlexBoxLayout totalSize parts = distributeFlexBoxLayout totalSize parts'"
  using distribute_clearWidths[of totalSize parts] distribute_clearWidths[of totalSize parts'] assms
  by simp

text \<open>
  The hypothesis holds at two inputs that differ in \<open>width\<close> only.
\<close>

theorem width_witness:
  "clearWidths widthExample = clearWidths scenarioD
   \<and> distributeFlexBoxLayout 100 widthExample = distributeFlexBoxLayout 100 scenarioD
   \<and> distributeFlexBoxLayout 100 widthExample = Inr (Some [(''a'', 50), (''b'', 50)])"
proof -
  have c: "clearWidths widthExample = clearWidths scenarioD"
    by (simp add: widthExample_def scenarioD_def clearWidth_def emptyPart_def)
  have "distributeFlexBoxLayout 100 scenarioD = Inr (Some [(''a'', 50), (''b'', 50)])"
    by code_simp
  then show ?thesis using width_is_ignored[OF c, of 100] c by simp
qed

end
